theory Spec2Isabelle
  imports Complex_Main "HOL-Library.Sublist" "HOL-Library.Code_Target_Nat"
begin

section \<open>The contact-form controller of src/js/main.js\<close>

text \<open>
  The controller is the part of \<^verbatim>\<open>main.js\<close> from \<^verbatim>\<open>RATE_LIMIT_KEY\<close> on: the
  client-side rate limiter (\<^verbatim>\<open>checkRateLimit\<close>, \<^verbatim>\<open>recordSubmission\<close>), the
  attribution lookup (\<^verbatim>\<open>getSource\<close>) and the submit handler of the contact form.

  Numbers are \<open>int\<close>: \<^verbatim>\<open>Date.now()\<close> and the ledger entries are whole milliseconds
  that the doubles of JavaScript hold exactly; where the sum of an entry and the window
  leaves the range of dates, \<open>new_Date\<close> says so. Strings are \<open>string\<close>, a character
  being a code unit from U+0000 to U+00FF. Everything the browser supplies (storage
  content, clock readings, the page's query string and referrer, the limits of its
  engine, the answer of the network) is an argument.
\<close>

subsection \<open>Exceptions, JSON and local storage\<close>

datatype exception = SecurityError | QuotaExceededError | SyntaxError | TypeError | RangeError

text \<open>
  What \<^verbatim>\<open>JSON.parse\<close> can make of a stored string, as far as the rate limiter can tell
  values apart: an array of timestamps, or any other JSON value (\<^verbatim>\<open>null\<close>, a boolean, a
  number, a string, an object), none of which has a \<^verbatim>\<open>filter\<close> method. Arrays holding
  anything but whole numbers are outside the model.
\<close>

datatype json = JArray "int list" | JOther

text \<open>
  A stored string is represented by what the code observes of it: whether it is empty
  (and so falsy), and what \<^verbatim>\<open>JSON.parse\<close> answers on it.
\<close>

datatype stored_text = Empty_text | Invalid_text | JSON_text json

fun JSON_parse :: "stored_text \<Rightarrow> exception + json" where
  "JSON_parse Empty_text = Inl SyntaxError"
| "JSON_parse Invalid_text = Inl SyntaxError"
| "JSON_parse (JSON_text j) = Inr j"

definition JSON_stringify :: "int list \<Rightarrow> stored_text" where
  "JSON_stringify xs = JSON_text (JArray xs)"

text \<open>\<^verbatim>\<open>submissions.filter(f)\<close>: a TypeError on a value without that method.\<close>

fun js_filter :: "(int \<Rightarrow> bool) \<Rightarrow> json \<Rightarrow> exception + int list" where
  "js_filter f (JArray xs) = Inr (filter f xs)"
| "js_filter f JOther = Inl TypeError"

text \<open>
  \<^verbatim>\<open>localStorage\<close>: the items by key, and whether reading or writing raises (storage
  blocked, quota exceeded).
\<close>

record localStorage =
  items :: "string \<rightharpoonup> stored_text"
  getItem_fails :: bool
  setItem_fails :: bool

text \<open>
  A computation on the storage ends with a value or an exception and leaves a storage.
\<close>

type_synonym 'a io = "localStorage \<Rightarrow> (exception + 'a) \<times> localStorage"

definition done_io :: "exception + 'a \<Rightarrow> 'a io" where
  "done_io r = (\<lambda>ls. (r, ls))"

definition bind_io :: "'a io \<Rightarrow> ('a \<Rightarrow> 'b io) \<Rightarrow> 'b io" where
  "bind_io m f = (\<lambda>ls. case m ls of (Inl e, ls') \<Rightarrow> (Inl e, ls') | (Inr x, ls') \<Rightarrow> f x ls')"

definition getItem :: "string \<Rightarrow> stored_text option io" where
  "getItem k = (\<lambda>ls. (if getItem_fails ls then Inl SecurityError else Inr (items ls k), ls))"

definition setItem :: "string \<Rightarrow> stored_text \<Rightarrow> unit io" where
  "setItem k v = (\<lambda>ls. if setItem_fails ls then (Inl QuotaExceededError, ls)
                        else (Inr (), ls\<lparr>items := (items ls)(k \<mapsto> v)\<rparr>))"

subsection \<open>Numbers in messages\<close>

definition digit :: "nat \<Rightarrow> char" where
  "digit d = ''0123456789'' ! d"

function digits :: "nat \<Rightarrow> string" where
  "digits n = (if n < 10 then [digit n] else digits (n div 10) @ [digit (n mod 10)])"
  by pat_completeness auto
termination
  by (relation "measure id") auto

declare digits.simps [simp del]

text \<open>The decimal text of a whole number, as a template literal renders it.\<close>

definition Number_toString :: "int \<Rightarrow> string" where
  "Number_toString n = (if n < 0 then CHR ''-'' # digits (nat (- n)) else digits (nat n))"

text \<open>
  \<^verbatim>\<open>Math.min(...xs)\<close> on an engine that passes at most \<open>max_args\<close> arguments in one
  call: spreading a longer array raises a RangeError. \<open>None\<close> stands for
  \<^verbatim>\<open>Infinity\<close>, the minimum of no arguments.
\<close>

definition Math_min :: "nat \<Rightarrow> int list \<Rightarrow> exception + int option" where
  "Math_min max_args xs =
     (if max_args < length xs then Inl RangeError
      else Inr (case xs of [] \<Rightarrow> None | x # ys \<Rightarrow> Some (fold min ys x)))"

text \<open>
  \<^verbatim>\<open>new Date(t)\<close>: its time value, and \<open>None\<close> for the invalid date that a time
  beyond 8.64e15 ms from the epoch gives.
\<close>

definition new_Date :: "int \<Rightarrow> int option" where
  "new_Date t = (if \<bar>t\<bar> \<le> 8640000000000000 then Some t else None)"

subsection \<open>Client-side rate limiting\<close>

definition RATE_LIMIT_KEY :: string where
  "RATE_LIMIT_KEY = ''gc_form_submissions''"

definition RATE_LIMIT_MAX :: nat where
  "RATE_LIMIT_MAX = 10"

definition RATE_LIMIT_WINDOW_MS :: int where
  "RATE_LIMIT_WINDOW_MS = 60 * 60 * 1000"

datatype rate_check = Allowed "int list" | Denied string

text \<open>\<^verbatim>\<open>stored ? JSON.parse(stored) : []\<close>: \<^verbatim>\<open>null\<close> and the empty string are falsy.\<close>

definition parse_stored :: "stored_text option \<Rightarrow> exception + json" where
  "parse_stored stored =
     (case stored of
        None \<Rightarrow> Inr (JArray [])
      | Some t \<Rightarrow> if t = Empty_text then Inr (JArray []) else JSON_parse t)"

text \<open>
  \<^verbatim>\<open>Math.ceil((resetTime - now) / 60000)\<close> with \<^verbatim>\<open>resetTime\<close> the date
  \<^verbatim>\<open>new Date(oldestSubmission + RATE_LIMIT_WINDOW_MS)\<close>; \<open>None\<close> is \<^verbatim>\<open>NaN\<close>, what an
  invalid date gives (the date of \<^verbatim>\<open>Infinity\<close> is invalid too).
\<close>

definition wait_minutes :: "int \<Rightarrow> int option \<Rightarrow> int option" where
  "wait_minutes now oldestSubmission =
     (case oldestSubmission of
        None \<Rightarrow> None
      | Some oldest \<Rightarrow>
          (case new_Date (oldest + RATE_LIMIT_WINDOW_MS) of
             None \<Rightarrow> None
           | Some resetTime \<Rightarrow> Some \<lceil>rat_of_int (resetTime - now) / 60000\<rceil>))"

definition denial_message :: "int option \<Rightarrow> string" where
  "denial_message minutes =
     ''Too many submissions. Please try again in ''
       @ (case minutes of None \<Rightarrow> ''NaN'' | Some m \<Rightarrow> Number_toString m)
       @ '' minute'' @ (if minutes \<noteq> Some 1 then ''s'' else '''') @ ''.''"

text \<open>
  The body of the \<^verbatim>\<open>try\<close> block of \<^verbatim>\<open>checkRateLimit\<close>, on an engine that passes at
  most \<open>max_args\<close> arguments.
\<close>

definition checkRateLimit_try :: "nat \<Rightarrow> int \<Rightarrow> rate_check io" where
  "checkRateLimit_try max_args now =
     bind_io (getItem RATE_LIMIT_KEY) (\<lambda>stored.
     bind_io (done_io (parse_stored stored)) (\<lambda>parsed.
     bind_io (done_io (js_filter (\<lambda>ts. now - ts < RATE_LIMIT_WINDOW_MS) parsed)) (\<lambda>submissions.
       if length submissions \<ge> RATE_LIMIT_MAX
       then bind_io (done_io (Math_min max_args submissions)) (\<lambda>oldestSubmission.
              done_io (Inr (Denied (denial_message (wait_minutes now oldestSubmission)))))
       else done_io (Inr (Allowed submissions)))))"

text \<open>
  \<^verbatim>\<open>checkRateLimit()\<close> at clock reading \<open>now\<close>: the result and the storage it leaves.
  The \<^verbatim>\<open>catch\<close> clause answers every exception with "allowed" and no entries.
\<close>

definition checkRateLimit :: "nat \<Rightarrow> int \<Rightarrow> localStorage \<Rightarrow> rate_check \<times> localStorage" where
  "checkRateLimit max_args now ls =
     (case checkRateLimit_try max_args now ls of
        (Inr r, ls') \<Rightarrow> (r, ls')
      | (Inl e, ls') \<Rightarrow> (Allowed [], ls'))"

text \<open>The body of the \<^verbatim>\<open>try\<close> block of \<^verbatim>\<open>recordSubmission\<close>.\<close>

definition recordSubmission_try :: "int \<Rightarrow> unit io" where
  "recordSubmission_try now =
     bind_io (getItem RATE_LIMIT_KEY) (\<lambda>stored.
     bind_io (done_io (parse_stored stored)) (\<lambda>parsed.
     bind_io (done_io (js_filter (\<lambda>ts. now - ts < RATE_LIMIT_WINDOW_MS) parsed)) (\<lambda>submissions.
       setItem RATE_LIMIT_KEY (JSON_stringify (submissions @ [now])))))"

text \<open>
  \<^verbatim>\<open>recordSubmission()\<close> at clock reading \<open>now\<close>: it returns nothing, and its
  \<^verbatim>\<open>catch\<close> clause drops every exception; what remains is the storage it leaves.
\<close>

definition recordSubmission :: "int \<Rightarrow> localStorage \<Rightarrow> localStorage" where
  "recordSubmission now ls = snd (recordSubmission_try now ls)"

subsection \<open>Attribution\<close>

text \<open>
  What \<^verbatim>\<open>getSource\<close> and the submit handler read of the browser: the entries of
  \<^verbatim>\<open>new URLSearchParams(window.location.search)\<close> in their order, \<^verbatim>\<open>document.referrer\<close>,
  the host name of \<^verbatim>\<open>new URL(document.referrer)\<close> (\<open>None\<close> when that constructor
  throws), \<^verbatim>\<open>window.location.hostname\<close>, \<^verbatim>\<open>window.location.href\<close>,
  \<^verbatim>\<open>navigator.userAgent\<close>, and the number of arguments its engine passes in one call
  at most.
\<close>

record browser =
  search_params :: "(string \<times> string) list"
  referrer :: string
  referrer_hostname :: "string option"
  location_hostname :: string
  location_href :: string
  userAgent :: string
  max_arguments :: nat

text \<open>\<^verbatim>\<open>params.get(name)\<close>: the value of the first entry of that name, or \<^verbatim>\<open>null\<close>.\<close>

fun params_get :: "(string \<times> string) list \<Rightarrow> string \<Rightarrow> string option" where
  "params_get [] name = None"
| "params_get ((k, v) # ps) name = (if k = name then Some v else params_get ps name)"

text \<open>\<^verbatim>\<open>host.includes(needle)\<close>.\<close>

fun string_includes :: "string \<Rightarrow> string \<Rightarrow> bool" where
  "string_includes [] needle = (needle = [])"
| "string_includes (c # cs) needle = (prefix needle (c # cs) \<or> string_includes cs needle)"

text \<open>The truth value of a string or \<^verbatim>\<open>null\<close> in a condition: only a non-empty string is truthy.\<close>

fun truthy :: "string option \<Rightarrow> bool" where
  "truthy None = False"
| "truthy (Some s) = (s \<noteq> [])"

definition classify_host :: "string \<Rightarrow> string \<Rightarrow> string" where
  "classify_host referrerHost hostname =
     (if referrerHost = hostname then ''internal''
      else if string_includes referrerHost ''google'' then ''google''
      else if string_includes referrerHost ''facebook'' \<or> string_includes referrerHost ''fb.com'' then ''facebook''
      else if string_includes referrerHost ''twitter'' \<or> string_includes referrerHost ''t.co'' then ''twitter''
      else if string_includes referrerHost ''linkedin'' then ''linkedin''
      else if string_includes referrerHost ''instagram'' then ''instagram''
      else referrerHost)"

definition getSource :: "browser \<Rightarrow> string" where
  "getSource b =
     (let params = search_params b in
      if truthy (params_get params ''utm_source'') then the (params_get params ''utm_source'')
      else if truthy (params_get params ''ref'') then the (params_get params ''ref'')
      else if truthy (params_get params ''source'') then the (params_get params ''source'')
      else if referrer b \<noteq> [] then
        (case referrer_hostname b of
           Some referrerHost \<Rightarrow> classify_host referrerHost (location_hostname b)
         | None \<Rightarrow> ''unknown'')
      else ''direct'')"

subsection \<open>The page\<close>

record fields =
  firstName :: string
  lastName :: string
  email :: string
  message :: string

record status =
  textContent :: string
  className :: string
  display :: string

record button =
  disabled :: bool
  label :: string

record tags =
  tag_source :: string
  tag_referrer :: string
  tag_pageUrl :: string
  tag_userAgent :: string
  tag_isTest :: bool
  tag_submittedAt :: int

record formData =
  formType :: string
  data_firstName :: string
  data_lastName :: string
  data_email :: string
  data_message :: string
  data_tags :: tags

record request =
  url :: string
  http_method :: string
  content_type :: string
  body :: formData

text \<open>
  The state the handler works on: the values of the four fields of \<^verbatim>\<open>#contactForm\<close>, the
  value of its \<^verbatim>\<open>input[name="_gotcha"]\<close> (\<open>None\<close> when the form has no such input),
  the element \<^verbatim>\<open>#formStatus\<close>, the submit button (\<open>label\<close> is its \<^verbatim>\<open>textContent\<close>),
  the local storage, and the requests handed to \<^verbatim>\<open>fetch\<close> so far.
\<close>

record page =
  form :: fields
  honeypot :: "string option"
  formStatus :: status
  submitBtn :: button
  storage :: localStorage
  sent :: "request list"

text \<open>
  The white space and line terminators that \<^verbatim>\<open>String.prototype.trim\<close> strips, among the
  characters up to U+00FF: tab, line feed, vertical tab, form feed, carriage return,
  space and the no-break space U+00A0.
\<close>

definition is_space :: "char \<Rightarrow> bool" where
  "is_space c =
     (c \<in> set [CHR 0x09, CHR 0x0A, CHR 0x0B, CHR 0x0C, CHR 0x0D, CHR 0x20, CHR 0xA0])"

text \<open>\<^verbatim>\<open>s.trim()\<close>.\<close>

definition trim :: "string \<Rightarrow> string" where
  "trim s = rev (dropWhile is_space (rev (dropWhile is_space s)))"

text \<open>
  Modelled from the spec: the markup of the contact page (\<^verbatim>\<open>contact_us.html\<close>) is not
  among the sources, so the default values that \<^verbatim>\<open>contactForm.reset()\<close> restores are
  taken from the specification ("reset all form fields to empty"; the browser test
  expects the empty string in every field after a successful submit).
\<close>

definition reset :: "page \<Rightarrow> page" where
  "reset p = p\<lparr>form := \<lparr>firstName = '''', lastName = '''', email = '''', message = ''''\<rparr>,
               honeypot := map_option (\<lambda>_. '''') (honeypot p)\<rparr>"

text \<open>
  Modelled from the spec: the markup of the contact page is not among the sources, so
  the label it gives the submit control, the control's "original label" of the
  specification, is taken from the browser test, which expects the text "Send Message"
  of the button in its normal state.
\<close>

definition original_label :: string where
  "original_label = ''Send Message''"

subsection \<open>The submit handler\<close>

text \<open>
  How the request ends: \<^verbatim>\<open>fetch\<close> rejects, or it resolves with a response. Of a response
  the handler reads \<^verbatim>\<open>ok\<close> (the status is 200 to 299) and, by \<^verbatim>\<open>response.json()\<close>, its
  body: \<open>None\<close> when that promise rejects (the body is not JSON), else the value,
  which is the JSON \<^verbatim>\<open>null\<close> or another value, of which only the properties
  \<^verbatim>\<open>error\<close> and \<^verbatim>\<open>message\<close> matter (\<open>None\<close> where the value has no such property;
  they are strings by the interface of the forms API).
\<close>

datatype js_value = JS_null | JS_object "string option" "string option"

record response =
  status_code :: nat
  response_json :: "js_value option"

datatype outcome = Rejected | Resolved response

definition ok :: "response \<Rightarrow> bool" where
  "ok r = (200 \<le> status_code r \<and> status_code r \<le> 299)"

text \<open>\<^verbatim>\<open>a || b\<close> where \<open>a\<close> is a string or \<^verbatim>\<open>undefined\<close>.\<close>

definition or_else :: "string option \<Rightarrow> string \<Rightarrow> string" where
  "or_else a b = (case a of Some s \<Rightarrow> if s \<noteq> [] then s else b | None \<Rightarrow> b)"

definition make_formData :: "browser \<Rightarrow> int \<Rightarrow> fields \<Rightarrow> formData" where
  "make_formData b submittedAt f =
     \<lparr>formType = ''contacts'',
      data_firstName = trim (firstName f),
      data_lastName = trim (lastName f),
      data_email = trim (email f),
      data_message = trim (message f),
      data_tags = \<lparr>tag_source = getSource b,
                   tag_referrer = (if referrer b \<noteq> [] then referrer b else ''direct''),
                   tag_pageUrl = location_href b,
                   tag_userAgent = userAgent b,
                   tag_isTest = False,
                   tag_submittedAt = submittedAt\<rparr>\<rparr>"

definition post :: "formData \<Rightarrow> request" where
  "post d = \<lparr>url = ''https://rest.gadgetcloud.io/forms'', http_method = ''POST'',
            content_type = ''application/json'', body = d\<rparr>"

text \<open>
  The handler runs in two parts. The first ends either by \<^verbatim>\<open>return\<close> or suspended at
  \<^verbatim>\<open>await fetch(...)\<close>, the request issued.
\<close>

datatype phase = Returned page | Pending page

text \<open>
  From the event to the \<^verbatim>\<open>await\<close>; \<open>now\<close> is the clock as \<^verbatim>\<open>checkRateLimit\<close> reads
  it, \<open>submittedAt\<close> as \<^verbatim>\<open>new Date()\<close> reads it for the tags (kept as an instant, not
  rendered in ISO 8601).
\<close>

definition on_submit :: "browser \<Rightarrow> int \<Rightarrow> int \<Rightarrow> page \<Rightarrow> phase" where
  "on_submit b now submittedAt p =
     (if truthy (honeypot p) then Returned p
      else case checkRateLimit (max_arguments b) now (storage p) of
        (Denied msg, ls) \<Rightarrow>
          Returned (p\<lparr>storage := ls,
                      formStatus := \<lparr>textContent = msg, className = ''form-status error'',
                                     display = ''block''\<rparr>\<rparr>)
      | (Allowed submissions, ls) \<Rightarrow>
          Pending (p\<lparr>storage := ls,
                     submitBtn := \<lparr>disabled = True, label = ''Sending...''\<rparr>,
                     formStatus := (formStatus p)\<lparr>textContent := '''', className := ''form-status''\<rparr>,
                     sent := sent p @ [post (make_formData b submittedAt (form p))]\<rparr>))"

text \<open>
  The \<^verbatim>\<open>try\<close> block after the \<^verbatim>\<open>await\<close>: the page it leaves, and the exception when it
  ends by one. A rejected \<^verbatim>\<open>fetch\<close> throws; so does reading \<^verbatim>\<open>error.error\<close> when
  \<^verbatim>\<open>response.json()\<close> gave \<^verbatim>\<open>null\<close>; \<^verbatim>\<open>.catch(() => ({}))\<close> puts the empty object
  in the place of a body that is not JSON.
\<close>

definition settle_try :: "int \<Rightarrow> outcome \<Rightarrow> page \<Rightarrow> exception option \<times> page" where
  "settle_try now out p =
     (case out of
        Rejected \<Rightarrow> (Some TypeError, p)
      | Resolved r \<Rightarrow>
          if ok r then
            (None, reset (p\<lparr>storage := recordSubmission now (storage p),
                            formStatus := \<lparr>textContent = ''Thank you for your message! We will get back to you soon.'',
                                           className = ''form-status success'', display = ''block''\<rparr>\<rparr>))
          else
            (let error = (case response_json r of None \<Rightarrow> JS_object None None | Some v \<Rightarrow> v)
             in case error of
                  JS_null \<Rightarrow> (Some TypeError, p)
                | JS_object err msg \<Rightarrow>
                    (None, p\<lparr>formStatus :=
                              \<lparr>textContent = or_else err (or_else msg ''Something went wrong. Please try again.''),
                               className = ''form-status error'', display = ''block''\<rparr>\<rparr>)))"

text \<open>
  From the settled request to the end of the handler: the \<^verbatim>\<open>try\<close> block, the
  \<^verbatim>\<open>catch\<close> clause when it threw, and the \<^verbatim>\<open>finally\<close> clause. \<open>now\<close> is the clock as
  \<^verbatim>\<open>recordSubmission\<close> reads it.
\<close>

definition on_settled :: "int \<Rightarrow> outcome \<Rightarrow> page \<Rightarrow> page" where
  "on_settled now out p =
     (let (thrown, p1) = settle_try now out p;
          p2 = (case thrown of
                  None \<Rightarrow> p1
                | Some err \<Rightarrow>
                    p1\<lparr>formStatus := \<lparr>textContent = ''Unable to send message. Please check your connection and try again.'',
                                       className = ''form-status error'', display = ''block''\<rparr>\<rparr>)
      in p2\<lparr>submitBtn := \<lparr>disabled = False, label = ''Send Message''\<rparr>\<rparr>)"

text \<open>One run of the handler whose request settles with \<open>out\<close>.\<close>

definition submit :: "browser \<Rightarrow> int \<Rightarrow> int \<Rightarrow> int \<Rightarrow> outcome \<Rightarrow> page \<Rightarrow> page" where
  "submit b now submittedAt recordedAt out p =
     (case on_submit b now submittedAt p of
        Returned p' \<Rightarrow> p'
      | Pending p' \<Rightarrow> on_settled recordedAt out p')"

subsection \<open>The ledger as the specification speaks of it\<close>

text \<open>
  The stored timestamp sequence: the array under the key, and the empty sequence when
  the storage cannot be read, holds nothing under the key, or holds no array.
\<close>

definition ledger :: "localStorage \<Rightarrow> int list" where
  "ledger ls =
     (if getItem_fails ls then []
      else case items ls RATE_LIMIT_KEY of
             Some (JSON_text (JArray xs)) \<Rightarrow> xs
           | _ \<Rightarrow> [])"

text \<open>
  Pruning at \<open>now\<close>: an entry stays while its age \<open>now - ts\<close> is below one hour
  (3 600 000 ms); an entry aged exactly one hour has expired.
\<close>

definition prune :: "int \<Rightarrow> int list \<Rightarrow> int list" where
  "prune now xs = [ts \<leftarrow> xs. now - ts < 3600000]"

text \<open>
  Pruning as the claim words it: only the entries older than the one-hour window, those
  of an age above 3 600 000 ms, are removed.
\<close>

definition prune_older :: "int \<Rightarrow> int list \<Rightarrow> int list" where
  "prune_older now xs = [ts \<leftarrow> xs. \<not> 3600000 < now - ts]"

text \<open>
  The decimal numerals: strings of digits, and the number such a string denotes.
\<close>

definition is_digit :: "char \<Rightarrow> bool" where
  "is_digit c = (c \<in> set ''0123456789'')"

definition digit_value :: "char \<Rightarrow> nat" where
  "digit_value c = of_char c - 48"

definition decimal_value :: "string \<Rightarrow> nat" where
  "decimal_value s = foldl (\<lambda>n c. 10 * n + digit_value c) 0 s"

text \<open>
  The storage keeps a usable ledger when it can be read and written and holds, under the
  key, nothing, the empty string or an array of timestamps.
\<close>

definition ledger_usable :: "localStorage \<Rightarrow> bool" where
  "ledger_usable ls =
     (\<not> getItem_fails ls \<and> \<not> setItem_fails ls \<and>
      (case items ls RATE_LIMIT_KEY of
         None \<Rightarrow> True
       | Some Empty_text \<Rightarrow> True
       | Some Invalid_text \<Rightarrow> False
       | Some (JSON_text JOther) \<Rightarrow> False
       | Some (JSON_text (JArray xs)) \<Rightarrow> True))"

subsection \<open>Attribution as the specification speaks of it\<close>

text \<open>The fixed ordered list of known platforms, each with the substrings that name it.\<close>

definition known_platforms :: "(string \<times> string list) list" where
  "known_platforms =
     [(''google'', [''google'']),
      (''facebook'', [''facebook'', ''fb.com'']),
      (''twitter'', [''twitter'', ''t.co'']),
      (''linkedin'', [''linkedin'']),
      (''instagram'', [''instagram''])]"

text \<open>
  The first of some optional strings that is present and not empty, and a default when
  there is none.
\<close>

fun first_nonempty :: "string option list \<Rightarrow> string \<Rightarrow> string" where
  "first_nonempty [] d = d"
| "first_nonempty (None # xs) d = first_nonempty xs d"
| "first_nonempty (Some s # xs) d = (if s = [] then first_nonempty xs d else s)"

text \<open>
  The classification of a referrer host: "internal" for the page's own host, else the
  first known platform one of whose substrings the host contains, else the host itself.
\<close>

definition classify_by_table :: "string \<Rightarrow> string \<Rightarrow> string" where
  "classify_by_table host here =
     (if host = here then ''internal''
      else case find (\<lambda>(name, needles). list_ex (\<lambda>n. sublist n host) needles)
                  known_platforms of
             Some (name, _) \<Rightarrow> name
           | None \<Rightarrow> host)"

text \<open>
  The source by precedence: the first of the query parameters \<^verbatim>\<open>utm_source\<close>, \<^verbatim>\<open>ref\<close>,
  \<^verbatim>\<open>source\<close> that is present with a non-empty value; else, with a non-empty
  referrer, the classification of its host, or "unknown" when it has none; else
  "direct".
\<close>

definition source_by_precedence :: "browser \<Rightarrow> string" where
  "source_by_precedence b =
     first_nonempty
       (map (map_of (search_params b)) [''utm_source'', ''ref'', ''source''])
       (if referrer b = [] then ''direct''
        else case referrer_hostname b of
               None \<Rightarrow> ''unknown''
             | Some host \<Rightarrow> classify_by_table host (location_hostname b))"

subsection \<open>The handler as an observer sees it\<close>

text \<open>What a user can see of a page, and what the network sees: everything but the storage.\<close>

definition visible :: "page \<Rightarrow> fields \<times> string option \<times> status \<times> button \<times> request list" where
  "visible p = (form p, honeypot p, formStatus p, submitBtn p, sent p)"

fun passed_guards :: "phase \<Rightarrow> bool" where
  "passed_guards (Pending p) = True"
| "passed_guards (Returned p) = False"

text \<open>The request ended with a response of status 2xx.\<close>

fun succeeded :: "outcome \<Rightarrow> bool" where
  "succeeded (Resolved r) = ok r"
| "succeeded Rejected = False"

text \<open>The properties \<^verbatim>\<open>error\<close> and \<^verbatim>\<open>message\<close> of the body of a response.\<close>

fun error_field :: "js_value option \<Rightarrow> string option" where
  "error_field (Some (JS_object err msg)) = err"
| "error_field (Some JS_null) = None"
| "error_field None = None"

fun message_field :: "js_value option \<Rightarrow> string option" where
  "message_field (Some (JS_object err msg)) = msg"
| "message_field (Some JS_null) = None"
| "message_field None = None"

subsection \<open>Example states\<close>

definition working_storage :: "(string \<rightharpoonup> stored_text) \<Rightarrow> localStorage" where
  "working_storage m = \<lparr>items = m, getItem_fails = False, setItem_fails = False\<rparr>"

text \<open>Ten submissions, one a second from 00:00:01 on.\<close>

definition ten_entries :: localStorage where
  "ten_entries =
     working_storage [RATE_LIMIT_KEY \<mapsto>
       JSON_stringify [1000, 2000, 3000, 4000, 5000, 6000, 7000, 8000, 9000, 10000]]"

text \<open>Ten submissions stamped with the last instant a date can hold.\<close>

definition far_future :: localStorage where
  "far_future =
     working_storage [RATE_LIMIT_KEY \<mapsto> JSON_stringify (replicate 10 8640000000000000)]"

text \<open>A storage that reads but refuses every write.\<close>

definition quota_exceeded :: localStorage where
  "quota_exceeded = \<lparr>items = Map.empty, getItem_fails = False, setItem_fails = True\<rparr>"

text \<open>A visit from \<^verbatim>\<open>m.facebook.com\<close>, and one by a link \<^verbatim>\<open>?utm_source=&ref=aff\<close>.\<close>

definition from_facebook :: browser where
  "from_facebook =
     \<lparr>search_params = [], referrer = ''https://m.facebook.com/'',
      referrer_hostname = Some ''m.facebook.com'', location_hostname = ''www.gadgetcloud.io'',
      location_href = ''https://www.gadgetcloud.io/contact_us.html'', userAgent = ''Mozilla/5.0'',
      max_arguments = 65535\<rparr>"

definition by_affiliate_link :: browser where
  "by_affiliate_link =
     \<lparr>search_params = [(''utm_source'', ''''), (''ref'', ''aff'')], referrer = '''',
      referrer_hostname = None, location_hostname = ''www.gadgetcloud.io'',
      location_href = ''https://www.gadgetcloud.io/contact_us.html?utm_source=&ref=aff'',
      userAgent = ''Mozilla/5.0'', max_arguments = 65535\<rparr>"

text \<open>The contact page with the form filled in, on a given storage.\<close>

definition filled_page :: "localStorage \<Rightarrow> page" where
  "filled_page ls =
     \<lparr>form = \<lparr>firstName = ''Test'', lastName = ''User'', email = ''test@example.com'',
              message = ''Hello''\<rparr>,
      honeypot = Some '''',
      formStatus = \<lparr>textContent = '''', className = ''form-status'', display = ''none''\<rparr>,
      submitBtn = \<lparr>disabled = False, label = original_label\<rparr>,
      storage = ls,
      sent = []\<rparr>"

definition bad_request :: "string option \<Rightarrow> string option \<Rightarrow> outcome" where
  "bad_request err msg = Resolved \<lparr>status_code = 400, response_json = Some (JS_object err msg)\<rparr>"

definition accepted :: outcome where
  "accepted = Resolved \<lparr>status_code = 200, response_json = Some (JS_object None None)\<rparr>"

section \<open>Properties\<close>

subsection \<open>The rate limiter in terms of the ledger\<close>

lemma checkRateLimit_eq:
  "checkRateLimit max_args now ls =
     (if length (prune now (ledger ls)) < 10 then Allowed (prune now (ledger ls))
      else (case Math_min max_args (prune now (ledger ls)) of
              Inl e \<Rightarrow> Allowed []
            | Inr oldest \<Rightarrow> Denied (denial_message (wait_minutes now oldest))), ls)"
  by (simp add: checkRateLimit_def checkRateLimit_try_def bind_io_def done_io_def getItem_def
      parse_stored_def ledger_def prune_def RATE_LIMIT_WINDOW_MS_def RATE_LIMIT_MAX_def
      split: option.splits stored_text.splits json.splits sum.splits)

lemma checkRateLimit_frame: "snd (checkRateLimit max_args now ls) = ls"
  by (simp add: checkRateLimit_eq)

lemma Math_min_eq:
  assumes "xs \<noteq> []" and "length xs \<le> max_args"
  shows "Math_min max_args xs = Inr (Some (Min (set xs)))"
proof -
  from assms(1) obtain x ys where xs: "xs = x # ys"
    by (cases xs) simp_all
  have "fold min ys x = Min (set (x # ys))"
    by (simp only: Min.set_eq_fold)
  with assms(2) show ?thesis
    by (simp add: Math_min_def xs)
qed

lemma checkRateLimit_few:
  assumes "length (prune now (ledger ls)) < 10"
  shows "fst (checkRateLimit max_args now ls) = Allowed (prune now (ledger ls))"
  using assms by (simp add: checkRateLimit_eq)

lemma checkRateLimit_many:
  assumes "10 \<le> length (prune now (ledger ls))"
    and "length (prune now (ledger ls)) \<le> max_args"
  shows "fst (checkRateLimit max_args now ls)
    = Denied (denial_message (wait_minutes now (Some (Min (set (prune now (ledger ls)))))))"
proof -
  from assms(1) have "prune now (ledger ls) \<noteq> []"
    by auto
  with assms show ?thesis
    by (simp add: checkRateLimit_eq Math_min_eq)
qed

lemma checkRateLimit_too_many:
  assumes "10 \<le> length (prune now (ledger ls))"
    and "max_args < length (prune now (ledger ls))"
  shows "fst (checkRateLimit max_args now ls) = Allowed []"
  using assms by (simp add: checkRateLimit_eq Math_min_def)

lemma recordSubmission_eq:
  "recordSubmission now ls =
     (if ledger_usable ls
      then ls\<lparr>items := (items ls)(RATE_LIMIT_KEY \<mapsto> JSON_stringify (prune now (ledger ls) @ [now]))\<rparr>
      else ls)"
  by (simp add: recordSubmission_def recordSubmission_try_def bind_io_def done_io_def getItem_def
      setItem_def ledger_usable_def parse_stored_def ledger_def prune_def RATE_LIMIT_WINDOW_MS_def
      split: option.splits stored_text.splits json.splits)

lemma ledger_recordSubmission:
  assumes "ledger_usable ls"
  shows "ledger (recordSubmission now ls) = prune now (ledger ls) @ [now]"
proof -
  from assms have "\<not> getItem_fails ls"
    by (simp add: ledger_usable_def)
  with assms show ?thesis
    by (simp add: recordSubmission_eq ledger_def JSON_stringify_def)
qed

lemma prune_age: "ts \<in> set (prune now xs) \<Longrightarrow> now - ts < 3600000"
  by (simp add: prune_def)

lemma prune_all_recent: "\<forall>ts \<in> set xs. now - ts < 3600000 \<Longrightarrow> prune now xs = xs"
  by (simp add: prune_def)

lemma wait_minutes_eq:
  assumes "\<bar>oldest + 3600000\<bar> \<le> 8640000000000000"
  shows "wait_minutes now (Some oldest) = Some \<lceil>rat_of_int (oldest + 3600000 - now) / 60000\<rceil>"
  using assms by (simp add: wait_minutes_def new_Date_def RATE_LIMIT_WINDOW_MS_def)

lemma whole_minutes_bounds:
  fixes d :: int
  defines "m \<equiv> - ((- d) div 60000)"
  shows "60000 * (m - 1) < d" and "d \<le> 60000 * m"
proof -
  define q where "q = (- d) div 60000"
  define r where "r = (- d) mod 60000"
  have split: "- d = 60000 * q + r"
    by (simp add: q_def r_def)
  have low: "0 \<le> r" and high: "r < 60000"
    by (simp_all add: r_def)
  have m: "m = - q"
    by (simp add: m_def q_def)
  from split high show "60000 * (m - 1) < d"
    unfolding m by (simp add: algebra_simps)
  from split low show "d \<le> 60000 * m"
    unfolding m by (simp add: algebra_simps)
qed

subsection \<open>The decimal text of a number\<close>

lemma digit_cases:
  assumes "d < 10"
  shows "is_digit (digit d)" and "digit_value (digit d) = d"
    and "(digit d = CHR ''0'') = (d = 0)"
proof -
  from assms have "d = 0 \<or> d = 1 \<or> d = 2 \<or> d = 3 \<or> d = 4 \<or> d = 5 \<or> d = 6 \<or> d = 7
      \<or> d = 8 \<or> d = 9"
    by arith
  then show "is_digit (digit d)" and "digit_value (digit d) = d"
    and "(digit d = CHR ''0'') = (d = 0)"
    by (auto simp: digit_def is_digit_def digit_value_def)
qed

lemma decimal_value_snoc: "decimal_value (s @ [c]) = 10 * decimal_value s + digit_value c"
  by (simp add: decimal_value_def)

lemma digits_decimal:
  "list_all is_digit (digits n) \<and> decimal_value (digits n) = n \<and> digits n \<noteq> []"
proof (induction n rule: digits.induct)
  case (1 n)
  show ?case
  proof (cases "n < 10")
    case True
    then show ?thesis
      by (simp add: digits.simps [of n] digit_cases decimal_value_def)
  next
    case False
    with "1" have "list_all is_digit (digits (n div 10))"
      and "decimal_value (digits (n div 10)) = n div 10"
      by simp_all
    with False show ?thesis
      by (simp add: digits.simps [of n] digit_cases decimal_value_snoc)
  qed
qed

lemma digits_leading:
  "0 < n \<Longrightarrow> hd (digits n) \<noteq> CHR ''0''"
proof (induction n rule: digits.induct)
  case (1 n)
  show ?case
  proof (cases "n < 10")
    case True
    with "1.prems" show ?thesis
      by (simp add: digits.simps [of n] digit_cases)
  next
    case False
    then have "0 < n div 10"
      by simp
    with False "1.IH" have "hd (digits (n div 10)) \<noteq> CHR ''0''"
      by simp
    moreover have "digits (n div 10) \<noteq> []"
      by (simp add: digits_decimal)
    ultimately show ?thesis
      using False by (simp add: digits.simps [of n])
  qed
qed

lemma denial_message_whole:
  assumes "1 \<le> m"
  shows "denial_message (Some m)
    = ''Too many submissions. Please try again in '' @ digits (nat m)
        @ (if m = 1 then '' minute.'' else '' minutes.'')"
  using assms by (simp add: denial_message_def Number_toString_def)

text \<open>
  Where the oldest remaining entry plus the window is a date, and the clock reads a time
  since the epoch: when \<open>checkRateLimit\<close> denies, the message carries the decimal
  numeral (digits only, no leading zero) of the wait \<open>m\<close>, the ceiling of (oldest
  remaining timestamp + one hour - now) / 60000, which is at least 1, followed by
  "minute" for \<open>m = 1\<close> and by "minutes" for every other value.
\<close>

lemma denial_reports_minutes:
  assumes denied: "fst (checkRateLimit max_args now ls) = Denied msg"
    and date: "Min (set (prune now (ledger ls))) + 3600000 \<le> 8640000000000000"
    and clock: "0 \<le> now"
  shows "\<exists>oldest m txt.
           oldest = Min (set (prune now (ledger ls)))
         \<and> m = \<lceil>rat_of_int (oldest + 3600000 - now) / 60000\<rceil>
         \<and> 60000 * (m - 1) < oldest + 3600000 - now
         \<and> oldest + 3600000 - now \<le> 60000 * m
         \<and> 1 \<le> m
         \<and> list_all is_digit txt \<and> hd txt \<noteq> CHR ''0'' \<and> int (decimal_value txt) = m
         \<and> msg = ''Too many submissions. Please try again in '' @ txt
                   @ (if m = 1 then '' minute.'' else '' minutes.'')"
proof -
  let ?xs = "prune now (ledger ls)"
  let ?d = "Min (set ?xs) + 3600000 - now"
  let ?m = "\<lceil>rat_of_int ?d / 60000\<rceil>"
  from denied have full: "10 \<le> length ?xs"
    by (simp add: checkRateLimit_eq split: if_splits)
  then have ne: "?xs \<noteq> []"
    by auto
  have fits: "length ?xs \<le> max_args"
  proof (rule ccontr)
    assume "\<not> length ?xs \<le> max_args"
    with full have "fst (checkRateLimit max_args now ls) = Allowed []"
      by (simp add: checkRateLimit_too_many)
    with denied show False
      by simp
  qed
  from ne have "Min (set ?xs) \<in> set ?xs"
    by simp
  then have pos: "0 < ?d"
    using prune_age [of "Min (set ?xs)" now "ledger ls"] by simp
  with date clock have valid: "\<bar>Min (set ?xs) + 3600000\<bar> \<le> 8640000000000000"
    by simp
  have msg: "msg = denial_message (Some ?m)"
    using denied checkRateLimit_many [OF full fits] wait_minutes_eq [OF valid, of now]
    by simp
  have m: "?m = - ((- ?d) div 60000)"
    using ceiling_divide_eq_div [of ?d 60000, where ?'a = rat] by simp
  have lower: "60000 * (?m - 1) < ?d"
    unfolding m by (rule whole_minutes_bounds)
  have upper: "?d \<le> 60000 * ?m"
    unfolding m by (rule whole_minutes_bounds)
  from pos upper have one: "1 \<le> ?m"
    by linarith
  let ?txt = "digits (nat ?m)"
  have "list_all is_digit ?txt" and "int (decimal_value ?txt) = ?m"
    using one by (simp_all add: digits_decimal)
  moreover from one have "hd ?txt \<noteq> CHR ''0''"
    by (simp add: digits_leading)
  moreover have "msg = ''Too many submissions. Please try again in '' @ ?txt
      @ (if ?m = 1 then '' minute.'' else '' minutes.'')"
    unfolding msg using one by (rule denial_message_whole)
  ultimately show ?thesis
    using lower upper one by blast
qed

lemma denial_reports_minutes_example:
  "fst (checkRateLimit 65535 3000 ten_entries)
     = Denied ''Too many submissions. Please try again in 60 minutes.''"
  by code_simp

subsection \<open>Attribution\<close>

lemma params_get_map_of: "params_get ps name = map_of ps name"
  by (induction ps) auto

lemma string_includes_sublist: "string_includes host needle \<longleftrightarrow> sublist needle host"
  by (induction host) (auto simp: sublist_Cons_right)

lemma classify_host_eq: "classify_host host here = classify_by_table host here"
  by (simp add: classify_host_def classify_by_table_def known_platforms_def
      string_includes_sublist)

subsection \<open>Claims about the rate limiter\<close>

text \<open>
  C1, as amended. For every storage and clock reading at which the pruned ledger has no
  more entries than the engine passes as arguments to \<^verbatim>\<open>Math.min\<close>, \<open>checkRateLimit\<close>
  answers "allowed" exactly when fewer than 10 entries of the stored ledger remain after
  pruning the entries at least one hour old (an entry remains while its age \<open>now - ts\<close>
  is below 3 600 000 ms), and the answer then carries exactly the pruned sequence; with
  10 or more remaining entries it answers "denied". A storage that cannot be read or
  holds no array counts as the empty ledger.
\<close>

theorem checkRateLimit_allowed_iff:
  assumes "length (prune now (ledger ls)) \<le> max_args"
  shows "fst (checkRateLimit max_args now ls) = Allowed (prune now (ledger ls))
           \<and> length (prune now (ledger ls)) < 10
         \<or> (\<exists>msg. fst (checkRateLimit max_args now ls) = Denied msg)
           \<and> 10 \<le> length (prune now (ledger ls))"
proof (cases "length (prune now (ledger ls)) < 10")
  case True
  then show ?thesis
    by (simp add: checkRateLimit_few)
next
  case False
  then have "10 \<le> length (prune now (ledger ls))"
    by simp
  with assms show ?thesis
    by (simp add: checkRateLimit_many)
qed

theorem checkRateLimit_allowed_iff_witness:
  "fst (checkRateLimit 65535 3601000 ten_entries)
     = Allowed [2000, 3000, 4000, 5000, 6000, 7000, 8000, 9000, 10000]"
proof -
  have pruned: "prune 3601000 (ledger ten_entries)
      = [2000, 3000, 4000, 5000, 6000, 7000, 8000, 9000, 10000]"
    by code_simp
  have fits: "length (prune 3601000 (ledger ten_entries)) \<le> 65535"
    unfolding pruned by simp
  from checkRateLimit_allowed_iff [OF fits] show ?thesis
    unfolding pruned by simp
qed

text \<open>
  C1 as stated fails: at clock reading 3601000 the first of ten stored entries, stamped
  1000, is exactly one hour old, so it is not older than the window and ten entries
  remain by the pruning the claim words; the code has pruned that entry too and answers
  "allowed" with the nine others.
\<close>

theorem checkRateLimit_prunes_at_one_hour:
  "length (prune_older 3601000 (ledger ten_entries)) = 10
   \<and> fst (checkRateLimit 65535 3601000 ten_entries)
       = Allowed [2000, 3000, 4000, 5000, 6000, 7000, 8000, 9000, 10000]"
  by code_simp

text \<open>
  C3. The claim fails on the code where the oldest remaining timestamp plus the window
  is past the last date, 8.64e15 ms from the epoch: on ten entries stamped with that
  last instant, at clock reading 3000, \<open>checkRateLimit\<close> denies and its message reads
  "NaN minutes", where the claim promises the ceiling of
  (8640000000000000 + 3600000 - 3000) / 60000, that is 144000000060 minutes.
\<close>

theorem denial_without_minutes:
  "fst (checkRateLimit 65535 3000 far_future)
     = Denied ''Too many submissions. Please try again in NaN minutes.''
   \<and> Min (set (prune 3000 (ledger far_future))) = 8640000000000000
   \<and> \<lceil>rat_of_int (8640000000000000 + 3600000 - 3000) / 60000\<rceil> = 144000000060"
  by code_simp

subsection \<open>Claims about attribution\<close>

text \<open>
  C2, as amended. For every query string and referrer, \<open>getSource\<close> returns the
  value of \<^verbatim>\<open>utm_source\<close> if that parameter is present with a non-empty value; else
  that of \<^verbatim>\<open>ref\<close>, else that of \<^verbatim>\<open>source\<close>, under the same condition; else, when
  the referrer is not empty, "internal" if the referrer host is the page's host,
  otherwise the first platform of the fixed ordered list that matches by substring,
  otherwise the raw referrer host, and "unknown" when the referrer has no parseable
  host; else "direct". A parameter given with an empty value counts as absent.
\<close>

theorem getSource_by_precedence: "getSource b = source_by_precedence b"
proof -
  have first: "first_nonempty (x # xs) d = (if truthy x then the x else first_nonempty xs d)"
    for x xs d
    by (cases x) simp_all
  show ?thesis
    by (simp add: getSource_def source_by_precedence_def Let_def params_get_map_of
        classify_host_eq first split: option.splits)
qed

theorem getSource_by_precedence_witness:
  "getSource from_facebook = ''facebook''"
proof -
  have "source_by_precedence from_facebook = ''facebook''"
    by code_simp
  with getSource_by_precedence [of from_facebook] show ?thesis
    by simp
qed

text \<open>
  C2 as stated fails: with the query string \<^verbatim>\<open>?utm_source=&ref=aff\<close> the parameter
  \<^verbatim>\<open>utm_source\<close> is present, its value is the empty string, and \<open>getSource\<close> returns
  the value of \<^verbatim>\<open>ref\<close> instead.
\<close>

theorem getSource_skips_empty_utm_source:
  "params_get (search_params by_affiliate_link) ''utm_source'' = Some ''''
   \<and> getSource by_affiliate_link = ''aff''"
  by code_simp

subsection \<open>Claims about the guards of the submit handler\<close>

text \<open>
  C4. Whenever the honeypot field holds a non-empty value, the handler returns at once
  and the page is left exactly as it was: no request is issued and the status element
  is not touched.
\<close>

theorem honeypot_aborts_silently:
  assumes "honeypot p = Some v" and "v \<noteq> []"
  shows "on_submit b now submittedAt p = Returned p
       \<and> submit b now submittedAt recordedAt out p = p
       \<and> sent (submit b now submittedAt recordedAt out p) = sent p
       \<and> formStatus (submit b now submittedAt recordedAt out p) = formStatus p"
  using assms by (simp add: submit_def on_submit_def)

theorem honeypot_aborts_silently_witness:
  "submit from_facebook 3000 3000 4000 accepted
      ((filled_page ten_entries)\<lparr>honeypot := Some ''http://spam.example''\<rparr>)
     = (filled_page ten_entries)\<lparr>honeypot := Some ''http://spam.example''\<rparr>"
  using honeypot_aborts_silently
    [of "(filled_page ten_entries)\<lparr>honeypot := Some ''http://spam.example''\<rparr>"
        "''http://spam.example''" from_facebook 3000 3000 4000 accepted]
  by simp

text \<open>
  C5. Whenever the honeypot is empty (or the form has none) and \<open>checkRateLimit\<close>
  denies, the handler shows the denial message as an error status and returns; nothing
  else of the page changes, so no request is issued. In particular \<open>checkRateLimit\<close>
  denies whenever the ledger holds 10 timestamps, or more as far as the engine passes
  them as arguments, all less than one hour old.
\<close>

theorem rate_limited_submit:
  assumes "\<not> truthy (honeypot p)"
  shows "(fst (checkRateLimit (max_arguments b) now (storage p)) = Denied msg \<longrightarrow>
            submit b now submittedAt recordedAt out p
              = p\<lparr>formStatus := \<lparr>textContent = msg, className = ''form-status error'',
                                  display = ''block''\<rparr>\<rparr>
          \<and> sent (submit b now submittedAt recordedAt out p) = sent p)
       \<and> (10 \<le> length (ledger (storage p))
            \<and> length (ledger (storage p)) \<le> max_arguments b
            \<and> (\<forall>ts \<in> set (ledger (storage p)). now - ts < 3600000) \<longrightarrow>
          (\<exists>m. fst (checkRateLimit (max_arguments b) now (storage p)) = Denied m))"
proof (intro conjI impI)
  assume denied: "fst (checkRateLimit (max_arguments b) now (storage p)) = Denied msg"
  then have "checkRateLimit (max_arguments b) now (storage p) = (Denied msg, storage p)"
    using checkRateLimit_frame [of "max_arguments b" now "storage p"]
    by (simp add: prod_eq_iff)
  with assms show "submit b now submittedAt recordedAt out p
      = p\<lparr>formStatus := \<lparr>textContent = msg, className = ''form-status error'',
                          display = ''block''\<rparr>\<rparr>"
    by (simp add: submit_def on_submit_def)
  then show "sent (submit b now submittedAt recordedAt out p) = sent p"
    by simp
next
  assume "10 \<le> length (ledger (storage p))
      \<and> length (ledger (storage p)) \<le> max_arguments b
      \<and> (\<forall>ts \<in> set (ledger (storage p)). now - ts < 3600000)"
  then have "10 \<le> length (prune now (ledger (storage p)))"
    and "length (prune now (ledger (storage p))) \<le> max_arguments b"
    by (simp_all add: prune_all_recent)
  then show "\<exists>m. fst (checkRateLimit (max_arguments b) now (storage p)) = Denied m"
    by (simp add: checkRateLimit_many)
qed

theorem rate_limited_submit_witness:
  "submit from_facebook 3000 3000 4000 accepted (filled_page ten_entries)
     = (filled_page ten_entries)
         \<lparr>formStatus := \<lparr>textContent = ''Too many submissions. Please try again in 60 minutes.'',
                         className = ''form-status error'', display = ''block''\<rparr>\<rparr>
   \<and> sent (submit from_facebook 3000 3000 4000 accepted (filled_page ten_entries)) = []"
proof -
  let ?p = "filled_page ten_entries"
  have empty: "\<not> truthy (honeypot ?p)"
    by (simp add: filled_page_def)
  have ten: "10 \<le> length (ledger (storage ?p))
      \<and> length (ledger (storage ?p)) \<le> max_arguments from_facebook
      \<and> (\<forall>ts \<in> set (ledger (storage ?p)). 3000 - ts < 3600000)"
    by code_simp
  have message: "fst (checkRateLimit (max_arguments from_facebook) 3000 (storage ?p))
      = Denied ''Too many submissions. Please try again in 60 minutes.''"
    by code_simp
  have none_sent: "sent ?p = []"
    by (simp add: filled_page_def)
  from rate_limited_submit [OF empty, of from_facebook 3000
      "''Too many submissions. Please try again in 60 minutes.''" 3000 4000 accepted]
    ten message none_sent
  show ?thesis
    by simp
qed

subsection \<open>Claims about the settled request\<close>

lemma passed_guards_storage:
  assumes "passed_guards (on_submit b now submittedAt p)"
  obtains p1 where "on_submit b now submittedAt p = Pending p1"
    and "storage p1 = storage p" and "form p1 = form p"
proof -
  have frame: "snd (checkRateLimit (max_arguments b) now (storage p)) = storage p"
    by (rule checkRateLimit_frame)
  from assms obtain p1 where pending: "on_submit b now submittedAt p = Pending p1"
    by (cases "on_submit b now submittedAt p") simp_all
  then have "storage p1 = storage p" and "form p1 = form p"
    using frame
    by (auto simp: on_submit_def split: if_splits prod.splits rate_check.splits)
  with pending show thesis
    by (rule that)
qed

lemma submit_sends_once:
  assumes "passed_guards (on_submit b now submittedAt p)"
  shows "sent (submit b now submittedAt recordedAt out p)
    = sent p @ [post (make_formData b submittedAt (form p))]"
proof -
  have settled: "sent (on_settled recordedAt out q) = sent q" for q
    by (cases out)
      (simp_all add: on_settled_def settle_try_def reset_def
        split: option.splits js_value.splits)
  from assms obtain p1 where pending: "on_submit b now submittedAt p = Pending p1"
    by (cases "on_submit b now submittedAt p") simp_all
  then have "sent p1 = sent p @ [post (make_formData b submittedAt (form p))]"
    by (auto simp: on_submit_def split: if_splits prod.splits rate_check.splits)
  with pending show ?thesis
    by (simp add: submit_def settled)
qed

lemma make_formData_example:
  "make_formData by_affiliate_link 1000
     \<lparr>firstName = '' Ada'', lastName = CHR 0xA0 # ''Lovelace'' @ [CHR 0x0A],
      email = ''ada@example.com '', message = ''Hello  there''\<rparr>
   = \<lparr>formType = ''contacts'', data_firstName = ''Ada'', data_lastName = ''Lovelace'',
      data_email = ''ada@example.com'', data_message = ''Hello  there'',
      data_tags = \<lparr>tag_source = ''aff'', tag_referrer = ''direct'',
        tag_pageUrl = ''https://www.gadgetcloud.io/contact_us.html?utm_source=&ref=aff'',
        tag_userAgent = ''Mozilla/5.0'', tag_isTest = False, tag_submittedAt = 1000\<rparr>\<rparr>"
  by code_simp

lemma settled_success:
  assumes "ok r"
  shows "on_settled now (Resolved r) p
    = reset (p\<lparr>storage := recordSubmission now (storage p),
                 formStatus := \<lparr>textContent = ''Thank you for your message! We will get back to you soon.'',
                                className = ''form-status success'', display = ''block''\<rparr>\<rparr>)
        \<lparr>submitBtn := \<lparr>disabled = False, label = ''Send Message''\<rparr>\<rparr>"
  using assms by (simp add: on_settled_def settle_try_def)

text \<open>
  C6, as amended. For every submission that passed the guards and whose POST resolves
  with a 2xx status, the handler calls \<open>recordSubmission\<close>, shows the success status
  and resets the four fields to empty strings. When the ledger is usable (the storage
  reads and writes, and holds nothing, the empty string or an array under the key) the
  stored ledger becomes the ledger pruned at that moment with the current timestamp
  appended; otherwise the storage is left as it was.
\<close>

theorem success_records_and_resets:
  assumes "passed_guards (on_submit b now submittedAt p)" and "ok r"
  shows "storage (submit b now submittedAt recordedAt (Resolved r) p)
           = recordSubmission recordedAt (storage p)
       \<and> (ledger_usable (storage p) \<longrightarrow>
            ledger (storage (submit b now submittedAt recordedAt (Resolved r) p))
              = prune recordedAt (ledger (storage p)) @ [recordedAt])
       \<and> (\<not> ledger_usable (storage p) \<longrightarrow>
            storage (submit b now submittedAt recordedAt (Resolved r) p) = storage p)
       \<and> formStatus (submit b now submittedAt recordedAt (Resolved r) p)
           = \<lparr>textContent = ''Thank you for your message! We will get back to you soon.'',
              className = ''form-status success'', display = ''block''\<rparr>
       \<and> form (submit b now submittedAt recordedAt (Resolved r) p)
           = \<lparr>firstName = '''', lastName = '''', email = '''', message = ''''\<rparr>"
proof -
  from assms(1) obtain p1 where pending: "on_submit b now submittedAt p = Pending p1"
    and same: "storage p1 = storage p"
    by (rule passed_guards_storage)
  have run: "submit b now submittedAt recordedAt (Resolved r) p
      = on_settled recordedAt (Resolved r) p1"
    by (simp add: submit_def pending)
  have stored: "storage (submit b now submittedAt recordedAt (Resolved r) p)
      = recordSubmission recordedAt (storage p)"
    by (simp add: run settled_success [OF assms(2)] reset_def same)
  moreover have "ledger (recordSubmission recordedAt (storage p))
      = prune recordedAt (ledger (storage p)) @ [recordedAt]" if "ledger_usable (storage p)"
    using that by (rule ledger_recordSubmission)
  moreover have "recordSubmission recordedAt (storage p) = storage p"
    if "\<not> ledger_usable (storage p)"
    using that by (simp add: recordSubmission_eq)
  moreover have "formStatus (submit b now submittedAt recordedAt (Resolved r) p)
      = \<lparr>textContent = ''Thank you for your message! We will get back to you soon.'',
         className = ''form-status success'', display = ''block''\<rparr>"
    by (simp add: run settled_success [OF assms(2)] reset_def)
  moreover have "form (submit b now submittedAt recordedAt (Resolved r) p)
      = \<lparr>firstName = '''', lastName = '''', email = '''', message = ''''\<rparr>"
    by (simp add: run settled_success [OF assms(2)] reset_def)
  ultimately show ?thesis
    by simp
qed

theorem success_records_and_resets_witness:
  "ledger (storage (submit from_facebook 3601000 3601000 3602500 accepted (filled_page ten_entries)))
     = [3000, 4000, 5000, 6000, 7000, 8000, 9000, 10000, 3602500]
   \<and> form (submit from_facebook 3601000 3601000 3602500 accepted (filled_page ten_entries))
     = \<lparr>firstName = '''', lastName = '''', email = '''', message = ''''\<rparr>"
proof -
  let ?p = "filled_page ten_entries"
  have guards: "passed_guards (on_submit from_facebook 3601000 3601000 ?p)"
    by code_simp
  have status: "ok \<lparr>status_code = 200, response_json = Some (JS_object None None)\<rparr>"
    by (simp add: ok_def)
  have usable: "ledger_usable (storage ?p)"
    by code_simp
  have pruned: "prune 3602500 (ledger (storage ?p)) @ [3602500]
      = [3000, 4000, 5000, 6000, 7000, 8000, 9000, 10000, 3602500]"
    by code_simp
  note run = success_records_and_resets [OF guards status, of 3602500]
  from run usable
  have "ledger (storage (submit from_facebook 3601000 3601000 3602500
        (Resolved \<lparr>status_code = 200, response_json = Some (JS_object None None)\<rparr>) ?p))
      = prune 3602500 (ledger (storage ?p)) @ [3602500]"
    by blast
  moreover from run
  have "form (submit from_facebook 3601000 3601000 3602500
        (Resolved \<lparr>status_code = 200, response_json = Some (JS_object None None)\<rparr>) ?p)
      = \<lparr>firstName = '''', lastName = '''', email = '''', message = ''''\<rparr>"
    by blast
  ultimately show ?thesis
    unfolding accepted_def pruned by (rule conjI)
qed

text \<open>
  C6 as stated fails: on a storage that refuses the write, a submission answered with
  status 200 passes the guards and shows the success status, and the stored ledger gains
  no entry.
\<close>

theorem success_without_new_entry:
  "passed_guards (on_submit from_facebook 1000 1000 (filled_page quota_exceeded))
   \<and> succeeded accepted
   \<and> ledger (storage (submit from_facebook 1000 1000 2000 accepted (filled_page quota_exceeded)))
       = []
   \<and> ledger (storage (submit from_facebook 1000 1000 2000 accepted (filled_page quota_exceeded)))
       \<noteq> prune 2000 (ledger (storage (filled_page quota_exceeded))) @ [2000]"
  by code_simp

text \<open>
  C7, as amended. For every submission that passed the guards and whose POST resolves
  with a status outside 2xx, the form field values are left unchanged; and unless the
  body is the JSON value \<^verbatim>\<open>null\<close>, the handler shows as an error status the body's
  \<^verbatim>\<open>error\<close> property if it is present and not empty, else its \<^verbatim>\<open>message\<close> property if
  that is present and not empty, else the generic fallback text. A body that is not
  JSON has neither property.
\<close>

theorem failure_shows_server_text:
  assumes "passed_guards (on_submit b now submittedAt p)" and "\<not> ok r"
  shows "form (submit b now submittedAt recordedAt (Resolved r) p) = form p
       \<and> (response_json r \<noteq> Some JS_null \<longrightarrow>
            formStatus (submit b now submittedAt recordedAt (Resolved r) p)
              = \<lparr>textContent =
                   first_nonempty [error_field (response_json r), message_field (response_json r)]
                     ''Something went wrong. Please try again.'',
                 className = ''form-status error'', display = ''block''\<rparr>)"
proof -
  from assms(1) obtain p1 where pending: "on_submit b now submittedAt p = Pending p1"
    and same: "form p1 = form p"
    by (rule passed_guards_storage)
  have run: "submit b now submittedAt recordedAt (Resolved r) p
      = on_settled recordedAt (Resolved r) p1"
    by (simp add: submit_def pending)
  have both: "or_else x (or_else y d) = first_nonempty [x, y] d" for x y d
    by (cases x; cases y) (simp_all add: or_else_def)
  from assms(2) show ?thesis
    unfolding run
    by (cases "response_json r" rule: error_field.cases)
      (simp_all add: on_settled_def settle_try_def same both)
qed

theorem failure_shows_server_text_witness:
  "textContent (formStatus (submit from_facebook 1000 1000 2000
      (bad_request (Some ''firstName: Must be at least 2 characters'') None)
      (filled_page ten_entries \<lparr>storage := quota_exceeded\<rparr>)))
     = ''firstName: Must be at least 2 characters''
   \<and> firstName (form (submit from_facebook 1000 1000 2000
      (bad_request (Some ''firstName: Must be at least 2 characters'') None)
      (filled_page ten_entries \<lparr>storage := quota_exceeded\<rparr>))) = ''Test''"
proof -
  let ?p = "filled_page ten_entries \<lparr>storage := quota_exceeded\<rparr>"
  let ?r = "\<lparr>status_code = 400,
      response_json = Some (JS_object (Some ''firstName: Must be at least 2 characters'') None)\<rparr>"
  have guards: "passed_guards (on_submit from_facebook 1000 1000 ?p)"
    by code_simp
  have status: "\<not> ok ?r"
    by (simp add: ok_def)
  have before: "firstName (form ?p) = ''Test''"
    by (simp add: filled_page_def)
  from failure_shows_server_text [OF guards status, of 2000] before
  show ?thesis
    by (simp add: bad_request_def)
qed

text \<open>
  C7 as stated fails: a response of status 400 whose body has the \<^verbatim>\<open>error\<close> property
  present with the empty string as its value makes the handler show the \<^verbatim>\<open>message\<close>
  property.
\<close>

theorem failure_skips_empty_error:
  "passed_guards (on_submit from_facebook 1000 1000 (filled_page quota_exceeded))
   \<and> \<not> succeeded (bad_request (Some '''') (Some ''Invalid email''))
   \<and> textContent (formStatus (submit from_facebook 1000 1000 2000
        (bad_request (Some '''') (Some ''Invalid email'')) (filled_page quota_exceeded)))
       = ''Invalid email''"
  by code_simp

subsection \<open>Claims about every exit of the handler\<close>

lemma settled_button:
  "submitBtn (on_settled now out p) = \<lparr>disabled = False, label = ''Send Message''\<rparr>"
  by (simp add: on_settled_def split: prod.splits)

text \<open>
  Whatever a run of the handler does, it leaves the control enabled and under its
  original label when it found it so: the label a submission finds is the original one.
\<close>

lemma control_as_loaded:
  assumes "submitBtn p = \<lparr>disabled = False, label = original_label\<rparr>"
  shows "submitBtn (submit b now submittedAt recordedAt out p)
    = \<lparr>disabled = False, label = original_label\<rparr>"
proof (cases "on_submit b now submittedAt p")
  case (Returned p')
  then have "submitBtn p' = submitBtn p"
    by (auto simp: on_submit_def split: if_splits prod.splits rate_check.splits)
  with Returned assms show ?thesis
    by (simp add: submit_def)
next
  case (Pending p')
  then show ?thesis
    by (simp add: submit_def settled_button original_label_def)
qed

text \<open>
  C8. For every outcome of a submission that passed the guards (2xx success, HTTP
  non-success, or a request that failed on the network) the submit control ends enabled
  and with the text it had before the submit, its original label, on every exit path.
\<close>

theorem control_restored:
  assumes "passed_guards (on_submit b now submittedAt p)"
    and "label (submitBtn p) = original_label"
  shows "submitBtn (submit b now submittedAt recordedAt out p)
           = \<lparr>disabled = False, label = label (submitBtn p)\<rparr>"
proof -
  from assms(1) obtain p1 where "on_submit b now submittedAt p = Pending p1"
    by (rule passed_guards_storage)
  then have "submit b now submittedAt recordedAt out p = on_settled recordedAt out p1"
    by (simp add: submit_def)
  with assms(2) show ?thesis
    by (simp add: settled_button original_label_def)
qed

theorem control_restored_witness:
  "submitBtn (submit from_facebook 1000 1000 2000 Rejected (filled_page quota_exceeded))
     = \<lparr>disabled = False, label = ''Send Message''\<rparr>
   \<and> label (submitBtn (filled_page quota_exceeded)) = ''Send Message''
   \<and> textContent (formStatus
        (submit from_facebook 1000 1000 2000 Rejected (filled_page quota_exceeded)))
     = ''Unable to send message. Please check your connection and try again.''"
proof -
  have guards: "passed_guards (on_submit from_facebook 1000 1000 (filled_page quota_exceeded))"
    by code_simp
  have original: "label (submitBtn (filled_page quota_exceeded)) = original_label"
    by (simp add: filled_page_def)
  have shown: "textContent (formStatus
      (submit from_facebook 1000 1000 2000 Rejected (filled_page quota_exceeded)))
      = ''Unable to send message. Please check your connection and try again.''"
    by code_simp
  from control_restored [OF guards original, of 2000 Rejected] shown show ?thesis
    by (simp add: filled_page_def original_label_def)
qed

subsection \<open>Claims about the storage\<close>

lemma visible_settled:
  assumes "visible q = visible q'"
  shows "visible (on_settled now out q) = visible (on_settled now out q')"
  using assms
  by (cases out)
    (simp_all add: visible_def on_settled_def settle_try_def reset_def
      split: option.splits js_value.splits)

lemma visible_submit_ledger:
  assumes "ledger ls = ledger ls'"
  shows "visible (submit b now submittedAt recordedAt out (p\<lparr>storage := ls\<rparr>))
       = visible (submit b now submittedAt recordedAt out (p\<lparr>storage := ls'\<rparr>))"
proof -
  define r where "r = fst (checkRateLimit (max_arguments b) now ls)"
  have left: "checkRateLimit (max_arguments b) now ls = (r, ls)"
    by (simp add: r_def checkRateLimit_eq)
  have right: "checkRateLimit (max_arguments b) now ls' = (r, ls')"
    by (simp add: r_def checkRateLimit_eq assms)
  show ?thesis
  proof (cases r)
    case (Allowed xs)
    show ?thesis
    proof (cases "truthy (honeypot p)")
      case True
      then show ?thesis
        by (simp add: submit_def on_submit_def visible_def)
    next
      case False
      then show ?thesis
        by (simp add: submit_def on_submit_def left right Allowed)
          (rule visible_settled, simp add: visible_def)
    qed
  next
    case (Denied msg)
    then show ?thesis
      by (simp add: submit_def on_submit_def left right visible_def)
  qed
qed

text \<open>
  C9. Storage faults are never visible. If reading the stored ledger raises, or the
  stored value does not parse or is no array, \<open>checkRateLimit\<close> answers "allowed" with
  the empty sequence, and a run of the submit handler shows the user, and sends the
  network, the same as on a working storage that holds nothing. If the write raises,
  \<open>recordSubmission\<close> returns with the storage as it was, and a run of the handler
  shows and sends the same as it does when the write succeeds.
\<close>

theorem storage_faults_fail_open:
  "(getItem_fails ls \<or> items ls RATE_LIMIT_KEY = Some Invalid_text
      \<or> items ls RATE_LIMIT_KEY = Some (JSON_text JOther) \<longrightarrow>
      fst (checkRateLimit max_args now ls) = Allowed []
    \<and> visible (submit b now submittedAt recordedAt out (p\<lparr>storage := ls\<rparr>))
        = visible (submit b now submittedAt recordedAt out
            (p\<lparr>storage := \<lparr>items = Map.empty, getItem_fails = False, setItem_fails = False\<rparr>\<rparr>)))
   \<and> (setItem_fails ls \<longrightarrow> recordSubmission now ls = ls)
   \<and> visible (submit b now submittedAt recordedAt out (p\<lparr>storage := ls\<lparr>setItem_fails := True\<rparr>\<rparr>))
       = visible (submit b now submittedAt recordedAt out (p\<lparr>storage := ls\<lparr>setItem_fails := False\<rparr>\<rparr>))"
proof (intro conjI impI)
  assume "getItem_fails ls \<or> items ls RATE_LIMIT_KEY = Some Invalid_text
      \<or> items ls RATE_LIMIT_KEY = Some (JSON_text JOther)"
  then have none: "ledger ls = []"
    by (auto simp: ledger_def)
  then show "fst (checkRateLimit max_args now ls) = Allowed []"
    by (simp add: checkRateLimit_eq prune_def)
  have "ledger \<lparr>items = Map.empty, getItem_fails = False, setItem_fails = False\<rparr> = []"
    by (simp add: ledger_def)
  with none show "visible (submit b now submittedAt recordedAt out (p\<lparr>storage := ls\<rparr>))
      = visible (submit b now submittedAt recordedAt out
          (p\<lparr>storage := \<lparr>items = Map.empty, getItem_fails = False, setItem_fails = False\<rparr>\<rparr>))"
    by (intro visible_submit_ledger) simp
next
  assume "setItem_fails ls"
  then show "recordSubmission now ls = ls"
    by (simp add: recordSubmission_eq ledger_usable_def)
next
  have "ledger (ls\<lparr>setItem_fails := True\<rparr>) = ledger (ls\<lparr>setItem_fails := False\<rparr>)"
    by (simp add: ledger_def)
  then show "visible (submit b now submittedAt recordedAt out (p\<lparr>storage := ls\<lparr>setItem_fails := True\<rparr>\<rparr>))
      = visible (submit b now submittedAt recordedAt out (p\<lparr>storage := ls\<lparr>setItem_fails := False\<rparr>\<rparr>))"
    by (rule visible_submit_ledger)
qed

theorem storage_faults_fail_open_witness:
  "fst (checkRateLimit 65535 3000 (ten_entries\<lparr>getItem_fails := True\<rparr>)) = Allowed []
   \<and> recordSubmission 3000 quota_exceeded = quota_exceeded"
proof -
  have unreadable: "getItem_fails (ten_entries\<lparr>getItem_fails := True\<rparr>)"
    by simp
  have unwritable: "setItem_fails quota_exceeded"
    by (simp add: quota_exceeded_def)
  from storage_faults_fail_open
      [where ls = "ten_entries\<lparr>getItem_fails := True\<rparr>" and max_args = 65535 and now = 3000] unreadable
  have "fst (checkRateLimit 65535 3000 (ten_entries\<lparr>getItem_fails := True\<rparr>)) = Allowed []"
    by blast
  moreover from storage_faults_fail_open [where ls = quota_exceeded and now = 3000] unwritable
  have "recordSubmission 3000 quota_exceeded = quota_exceeded"
    by blast
  ultimately show ?thesis
    by (rule conjI)
qed

text \<open>
  C10. \<open>checkRateLimit\<close> never writes to local storage: the storage it leaves is the
  storage it found, whatever is stored; pruning touches only the sequence it returns. A
  run of the submit handler changes the storage only by \<open>recordSubmission\<close>, which it
  calls when the guards were passed and the response has a 2xx status.
\<close>

theorem checkRateLimit_leaves_storage:
  "snd (checkRateLimit max_args now ls) = ls
   \<and> snd (checkRateLimit_try max_args now ls) = ls
   \<and> storage (submit b now submittedAt recordedAt out p)
       = (if passed_guards (on_submit b now submittedAt p) \<and> succeeded out
          then recordSubmission recordedAt (storage p) else storage p)"
proof (intro conjI)
  show "snd (checkRateLimit max_args now ls) = ls"
    by (rule checkRateLimit_frame)
  show "snd (checkRateLimit_try max_args now ls) = ls"
    by (simp add: checkRateLimit_try_def bind_io_def done_io_def getItem_def
        split: sum.splits option.splits)
  have settled: "storage (on_settled recordedAt out q)
      = (if succeeded out then recordSubmission recordedAt (storage q) else storage q)" for q
    by (cases out)
      (simp_all add: on_settled_def settle_try_def reset_def
        split: option.splits js_value.splits)
  show "storage (submit b now submittedAt recordedAt out p)
      = (if passed_guards (on_submit b now submittedAt p) \<and> succeeded out
         then recordSubmission recordedAt (storage p) else storage p)"
    using checkRateLimit_frame [of "max_arguments b" now "storage p"]
    by (auto simp: submit_def on_submit_def settled
        split: prod.splits rate_check.splits)
qed

theorem checkRateLimit_leaves_storage_witness:
  "snd (checkRateLimit 65535 3601000 ten_entries) = ten_entries
   \<and> fst (checkRateLimit 65535 3601000 ten_entries)
       = Allowed [2000, 3000, 4000, 5000, 6000, 7000, 8000, 9000, 10000]"
proof -
  have "fst (checkRateLimit 65535 3601000 ten_entries)
      = Allowed [2000, 3000, 4000, 5000, 6000, 7000, 8000, 9000, 10000]"
    by code_simp
  with checkRateLimit_leaves_storage [of 65535 3601000 ten_entries] show ?thesis
    by simp
qed

end
